theory Spec2Isabelle
  imports Main
begin

section \<open>Python values and dictionaries\<close>

text \<open>
  The values a plugin may put into its acceptance dictionary or into a task's settings.
  Python is dynamically typed: \<open>accept_data.get("visible", True)\<close> stores whatever the
  plugin supplied, and \<open>if accept_data.get("accepted")\<close> tests its truthiness.
\<close>

datatype pyval = PNone | PBool bool | PInt int | PStr string

text \<open>Python truth value testing: \<open>None\<close>, \<open>False\<close>, \<open>0\<close> and \<open>""\<close> are false.\<close>

fun truthy :: "pyval \<Rightarrow> bool" where
  "truthy PNone = False"
| "truthy (PBool b) = b"
| "truthy (PInt n) = (n \<noteq> 0)"
| "truthy (PStr s) = (s \<noteq> [])"

type_synonym pydict = "string \<rightharpoonup> pyval"

text \<open>\<open>d.get(k)\<close>: the value under \<open>k\<close>, or \<open>None\<close> when the key is absent.\<close>

definition dict_get :: "pydict \<Rightarrow> string \<Rightarrow> pyval" where
  "dict_get d k = (case d k of None \<Rightarrow> PNone | Some v \<Rightarrow> v)"

text \<open>\<open>d.get(k, default)\<close>.\<close>

definition dict_get_default :: "pydict \<Rightarrow> string \<Rightarrow> pyval \<Rightarrow> pyval" where
  "dict_get_default d k dflt = (case d k of None \<Rightarrow> dflt | Some v \<Rightarrow> v)"

text \<open>An exception raised by a collaborator, carried to the caller as a value.\<close>

datatype py_exception = PyException string

section \<open>Objects\<close>

text \<open>
  Objects live in a store and are named by their address; a task holds the addresses of
  its plugin and of its item, and the registries of a plugin and of an item hold the
  addresses of tasks. The fields \<open>self._plugin\<close>, \<open>self._item\<close>, \<open>self._settings\<close>,
  \<open>self._accepted\<close>, \<open>self._visible\<close>, \<open>self._enabled\<close> and \<open>self._checked\<close> of the class
  \<open>Task\<close> are the fields \<open>task_plugin\<close>, ... of the record below.
\<close>

type_synonym obj_ref = nat

record task =
  task_plugin :: obj_ref
  task_item :: obj_ref
  task_settings :: pydict
  task_accepted :: bool
  task_visible :: pyval
  task_enabled :: pyval
  task_checked :: pyval

text \<open>
  Modelled from the spec: the classes of the plugin and of the item are missing from the
  source under \<open>src/\<close>. The spec lists what a task consumes from them: from the plugin,
  \<open>run_accept\<close>, \<open>run_validate\<close>, \<open>run_publish\<close>, \<open>run_finalize\<close>, a \<open>name\<close> and a logger
  recording informational messages with structured extra data; from the item, a \<open>name\<close>;
  from both, a registration hook \<open>add_task\<close> that keeps a collection of bound units and
  that may fail. Each operation is a field of the object, so every behaviour of a
  collaborator is covered: an operation returns \<open>Inr\<close> its result or \<open>Inl\<close> the exception
  it raises, and \<open>add_task\<close> maps the current collection and the new unit to the new
  collection. \<open>plugin_str\<close> and \<open>item_str\<close> are what \<open>"%s" % obj\<close> prints.
\<close>

record plugin_obj =
  plugin_name :: string
  plugin_str :: string
  plugin_tasks :: "obj_ref list"
  plugin_logger :: "(string \<times> pyval) list"
  plugin_add_task :: "obj_ref list \<Rightarrow> obj_ref \<Rightarrow> py_exception + obj_ref list"
  run_accept :: "pydict \<Rightarrow> obj_ref \<Rightarrow> py_exception + pydict"
  run_validate :: "pydict \<Rightarrow> obj_ref \<Rightarrow> py_exception + pyval"
  run_publish :: "pydict \<Rightarrow> obj_ref \<Rightarrow> py_exception + unit"
  run_finalize :: "pydict \<Rightarrow> obj_ref \<Rightarrow> py_exception + unit"

record item_obj =
  item_name :: string
  item_str :: string
  item_tasks :: "obj_ref list"
  item_add_task :: "obj_ref list \<Rightarrow> obj_ref \<Rightarrow> py_exception + obj_ref list"

text \<open>
  The program state: the three kinds of objects by address, the next free task address,
  and the lines written to the module's logger by \<open>logger.debug\<close>.
\<close>

record world =
  heap :: "obj_ref \<Rightarrow> task"
  next_ref :: obj_ref
  plugins :: "obj_ref \<Rightarrow> plugin_obj"
  items :: "obj_ref \<Rightarrow> item_obj"
  debug_log :: "string list"

text \<open>
  Modelled from the spec: \<open>add_task\<close> of the plugin and of the item is missing from the
  source under \<open>src/\<close>. The hook the spec describes appends the unit to the collection
  of bound units; the second hook is one that fails.
\<close>

definition append_task :: "obj_ref list \<Rightarrow> obj_ref \<Rightarrow> py_exception + obj_ref list" where
  "append_task ts t = Inr (ts @ [t])"

definition failing_add_task :: "obj_ref list \<Rightarrow> obj_ref \<Rightarrow> py_exception + obj_ref list" where
  "failing_add_task ts t = Inl (PyException ''add_task failed'')"

text \<open>
  Modelled from the spec: the plugin class is missing from the source under \<open>src/\<close>, and
  the interface the spec lists for it has no comparison of its own, so \<open>==\<close> between two
  plugins is Python's default for objects: the same object.
\<close>

definition py_obj_eq :: "obj_ref \<Rightarrow> obj_ref \<Rightarrow> bool" where
  "py_obj_eq a b = (a = b)"

section \<open>The class Task\<close>

text \<open>\<open>Task.__init__(self, plugin, item, settings)\<close>.\<close>

definition Task_init :: "obj_ref \<Rightarrow> obj_ref \<Rightarrow> pydict \<Rightarrow> task" where
  "Task_init plugin_ref item_ref settings_dict =
     \<lparr> task_plugin = plugin_ref,
       task_item = item_ref,
       task_settings = settings_dict,
       task_accepted = False,
       task_visible = PBool True,
       task_enabled = PBool True,
       task_checked = PBool True \<rparr>"

text \<open>The read-only properties.\<close>

definition item :: "task \<Rightarrow> obj_ref" where
  "item t = task_item t"

definition plugin :: "task \<Rightarrow> obj_ref" where
  "plugin t = task_plugin t"

definition visible :: "task \<Rightarrow> pyval" where
  "visible t = task_visible t"

definition checked :: "task \<Rightarrow> pyval" where
  "checked t = task_checked t"

definition enabled :: "task \<Rightarrow> pyval" where
  "enabled t = task_enabled t"

definition settings :: "task \<Rightarrow> pydict" where
  "settings t = task_settings t"

text \<open>The setter of the property \<open>settings\<close>: \<open>self._settings = settings\<close>.\<close>

definition settings_setter :: "obj_ref \<Rightarrow> pydict \<Rightarrow> world \<Rightarrow> (py_exception + unit) \<times> world" where
  "settings_setter self new_settings w =
     (Inr (), w\<lparr>heap := (heap w)(self := (heap w self)\<lparr>task_settings := new_settings\<rparr>)\<rparr>)"

text \<open>\<open>Task.__repr__\<close>: \<open>"<Task: %s for %s >" % (self._plugin, self._item)\<close>.\<close>

definition task_repr :: "world \<Rightarrow> task \<Rightarrow> string" where
  "task_repr w t =
     ''<Task: '' @ plugin_str (plugins w (task_plugin t)) @ '' for ''
       @ item_str (items w (task_item t)) @ '' >''"

text \<open>
  \<open>Task.create_task(cls, plugin, item, settings)\<close>: allocate the task, register it with
  the plugin, then with the item, write the debug line and return the task. An exception
  of either \<open>add_task\<close> leaves the function at that point, with the state as it is then.
\<close>

definition create_task ::
  "obj_ref \<Rightarrow> obj_ref \<Rightarrow> pydict \<Rightarrow> world \<Rightarrow> (py_exception + obj_ref) \<times> world" where
  "create_task plugin_ref item_ref settings_dict w =
     (let new_task = next_ref w;
          w1 = w\<lparr>heap := (heap w)(new_task := Task_init plugin_ref item_ref settings_dict),
                 next_ref := Suc new_task\<rparr>;
          p = plugins w1 plugin_ref
      in case plugin_add_task p (plugin_tasks p) new_task of
           Inl e \<Rightarrow> (Inl e, w1)
         | Inr ptasks \<Rightarrow>
             (let w2 = w1\<lparr>plugins := (plugins w1)(plugin_ref := p\<lparr>plugin_tasks := ptasks\<rparr>)\<rparr>;
                  i = items w2 item_ref
              in case item_add_task i (item_tasks i) new_task of
                   Inl e \<Rightarrow> (Inl e, w2)
                 | Inr itasks \<Rightarrow>
                     (let w3 = w2\<lparr>items := (items w2)(item_ref := i\<lparr>item_tasks := itasks\<rparr>)\<rparr>;
                          w4 = w3\<lparr>debug_log := debug_log w3
                                  @ [''Created '' @ task_repr w3 (heap w3 new_task)]\<rparr>
                      in (Inr new_task, w4))))"

text \<open>\<open>Task.is_same_task_type(self, other_task)\<close>: \<open>self._plugin == other_task._plugin\<close>.\<close>

definition is_same_task_type :: "obj_ref \<Rightarrow> obj_ref \<Rightarrow> world \<Rightarrow> bool \<times> world" where
  "is_same_task_type self other_task w =
     (py_obj_eq (task_plugin (heap w self)) (task_plugin (heap w other_task)), w)"

text \<open>\<open>self.plugin.logger.info(msg, extra=extra)\<close>.\<close>

definition logger_info :: "obj_ref \<Rightarrow> string \<Rightarrow> pyval \<Rightarrow> world \<Rightarrow> world" where
  "logger_info plugin_ref msg extra w =
     w\<lparr>plugins := (plugins w)(plugin_ref :=
          (plugins w plugin_ref)\<lparr>plugin_logger :=
             plugin_logger (plugins w plugin_ref) @ [(msg, extra)]\<rparr>)\<rparr>"

text \<open>
  \<open>Task.accept(self)\<close>. The message is \<open>"Plugin: '%s' - Accepted: %s"\<close> (or \<open>Rejected\<close>)
  filled with the plugin's name and the item's name.
\<close>

definition accept_message :: "string \<Rightarrow> string \<Rightarrow> string \<Rightarrow> string" where
  "accept_message verdict pname iname =
     ''Plugin: '' @ [CHR 0x27] @ pname @ [CHR 0x27] @ '' - '' @ verdict @ '': '' @ iname"

definition accept :: "obj_ref \<Rightarrow> world \<Rightarrow> (py_exception + unit) \<times> world" where
  "accept self w =
     (let t = heap w self;
          p = plugins w (plugin t)
      in case run_accept p (settings t) (item t) of
           Inl e \<Rightarrow> (Inl e, w)
         | Inr accept_data \<Rightarrow>
             if truthy (dict_get accept_data ''accepted'') then
               (let w1 = logger_info (plugin t)
                           (accept_message ''Accepted'' (plugin_name p) (item_name (items w (item t))))
                           (dict_get accept_data ''extra_info'') w;
                    t1 = t\<lparr>task_visible := dict_get_default accept_data ''visible'' (PBool True)\<rparr>;
                    t2 = t1\<lparr>task_enabled := dict_get_default accept_data ''enabled'' (PBool True)\<rparr>;
                    t3 = (if \<not> task_accepted t2
                          then t2\<lparr>task_accepted := True,
                                  task_checked := dict_get_default accept_data ''checked'' (PBool True)\<rparr>
                          else t2)
                in (Inr (), w1\<lparr>heap := (heap w1)(self := t3)\<rparr>))
             else
               (let w1 = logger_info (plugin t)
                           (accept_message ''Rejected'' (plugin_name p) (item_name (items w (item t))))
                           (dict_get accept_data ''extra_info'') w;
                    t1 = t\<lparr>task_accepted := False, task_enabled := PBool False,
                           task_checked := PBool False\<rparr>
                in (Inr (), w1\<lparr>heap := (heap w1)(self := t1)\<rparr>)))"

text \<open>What \<open>self.plugin.run_accept(self.settings, self.item)\<close> answers in the state \<open>w\<close>.\<close>

abbreviation accept_answer :: "obj_ref \<Rightarrow> world \<Rightarrow> py_exception + pydict" where
  "accept_answer self w \<equiv>
     run_accept (plugins w (plugin (heap w self))) (settings (heap w self)) (item (heap w self))"

text \<open>\<open>Task.validate(self)\<close>: the plugin's answer is returned as it is.\<close>

definition validate :: "obj_ref \<Rightarrow> world \<Rightarrow> (py_exception + pyval) \<times> world" where
  "validate self w =
     (let t = heap w self
      in (run_validate (plugins w (plugin t)) (settings t) (item t), w))"

text \<open>\<open>Task.publish(self)\<close> and \<open>Task.finalize(self)\<close>: the plugin's result is dropped.\<close>

definition publish :: "obj_ref \<Rightarrow> world \<Rightarrow> (py_exception + unit) \<times> world" where
  "publish self w =
     (let t = heap w self
      in (case run_publish (plugins w (plugin t)) (settings t) (item t) of
            Inl e \<Rightarrow> Inl e | Inr _ \<Rightarrow> Inr (), w))"

definition finalize :: "obj_ref \<Rightarrow> world \<Rightarrow> (py_exception + unit) \<times> world" where
  "finalize self w =
     (let t = heap w self
      in (case run_finalize (plugins w (plugin t)) (settings t) (item t) of
            Inl e \<Rightarrow> Inl e | Inr _ \<Rightarrow> Inr (), w))"

section \<open>Concrete states\<close>

text \<open>
  A state to run the operations on: every task address holds the task \<open>t\<close>, every plugin
  answers \<open>run_accept\<close> with the dictionary \<open>answer\<close> and validates successfully, except
  that plugin 1 refuses registration and fails validation, and item 1 refuses registration.
\<close>

definition empty_dict :: pydict where
  "empty_dict = Map.empty"

definition old_settings :: pydict where
  "old_settings = [''a'' \<mapsto> PInt 1, ''shared'' \<mapsto> PInt 0]"

definition new_settings :: pydict where
  "new_settings = [''b'' \<mapsto> PInt 2, ''shared'' \<mapsto> PInt 5]"

definition demo_plugin :: "pydict \<Rightarrow> plugin_obj" where
  "demo_plugin answer =
     \<lparr> plugin_name = ''publish'', plugin_str = ''<Plugin publish>'',
       plugin_tasks = [], plugin_logger = [],
       plugin_add_task = append_task,
       run_accept = (\<lambda>s i. Inr answer),
       run_validate = (\<lambda>s i. Inr (PBool True)),
       run_publish = (\<lambda>s i. Inr ()),
       run_finalize = (\<lambda>s i. Inr ()) \<rparr>"

definition broken_plugin :: "pydict \<Rightarrow> plugin_obj" where
  "broken_plugin answer =
     (demo_plugin answer)\<lparr> plugin_add_task := failing_add_task,
                            run_validate := (\<lambda>s i. Inl (PyException ''validation hook failed'')) \<rparr>"

definition demo_item :: item_obj where
  "demo_item =
     \<lparr> item_name = ''scene'', item_str = ''<Item scene>'', item_tasks = [],
       item_add_task = append_task \<rparr>"

definition broken_item :: item_obj where
  "broken_item = demo_item\<lparr> item_add_task := failing_add_task \<rparr>"

definition demo_world :: "task \<Rightarrow> pydict \<Rightarrow> world" where
  "demo_world t answer =
     \<lparr> heap = (\<lambda>r. t),
       next_ref = 0,
       plugins = (\<lambda>r. if r = 1 then broken_plugin answer else demo_plugin answer),
       items = (\<lambda>r. if r = 1 then broken_item else demo_item),
       debug_log = [] \<rparr>"

text \<open>
  A state with three tasks: tasks 0 and 1 are bound to plugin 0 with different items and
  settings, task 2 is bound to plugin 2 with the item and settings of task 0.
\<close>

definition three_tasks :: world where
  "three_tasks =
     \<lparr> heap = (\<lambda>r. if r = 0 then Task_init 0 0 old_settings
                     else if r = 1 then Task_init 0 2 new_settings
                     else Task_init 2 0 old_settings),
       next_ref = 3,
       plugins = (\<lambda>r. demo_plugin empty_dict),
       items = (\<lambda>r. demo_item),
       debug_log = [] \<rparr>"

definition fresh_task :: task where
  "fresh_task = Task_init 0 0 empty_dict"

text \<open>A task that was accepted and then unchecked and hidden.\<close>

definition toggled_task :: task where
  "toggled_task = fresh_task\<lparr> task_accepted := True, task_visible := PBool False,
                               task_checked := PBool False \<rparr>"

text \<open>Acceptance dictionaries: a single \<open>accepted\<close> entry, and one with every flag.\<close>

definition answer_only :: "pyval \<Rightarrow> pydict" where
  "answer_only v = [''accepted'' \<mapsto> v]"

definition answer_flags :: pydict where
  "answer_flags = [''accepted'' \<mapsto> PBool True, ''visible'' \<mapsto> PBool False,
                   ''enabled'' \<mapsto> PBool True, ''checked'' \<mapsto> PBool False]"

definition answer_no_flag :: pydict where
  "answer_no_flag = [''extra_info'' \<mapsto> PStr ''nothing to say'']"

lemmas demo_defs =
  demo_world_def demo_plugin_def broken_plugin_def demo_item_def broken_item_def
  fresh_task_def toggled_task_def three_tasks_def Task_init_def empty_dict_def
  answer_only_def answer_flags_def answer_no_flag_def append_task_def failing_add_task_def
  old_settings_def new_settings_def

lemmas task_props = item_def plugin_def visible_def checked_def enabled_def settings_def

lemmas accept_defs = accept_def Let_def logger_info_def dict_get_def dict_get_default_def

section \<open>Construction\<close>

text \<open>
  C5: every unit returned by the factory, before any lifecycle operation is invoked on it,
  has visible = true, enabled = true, checked = true and accepted = false.
\<close>

theorem create_task_fresh_defaults:
  assumes "create_task plugin_ref item_ref settings_dict w = (Inr r, w')"
  shows "visible (heap w' r) = PBool True \<and> enabled (heap w' r) = PBool True
       \<and> checked (heap w' r) = PBool True \<and> task_accepted (heap w' r) = False"
  using assms
  by (auto simp: create_task_def Let_def Task_init_def task_props split: sum.splits)

theorem create_task_fresh_defaults_witness:
  "fst (create_task 0 0 empty_dict (demo_world fresh_task empty_dict)) = Inr 0
   \<and> visible (heap (snd (create_task 0 0 empty_dict (demo_world fresh_task empty_dict))) 0) = PBool True
   \<and> enabled (heap (snd (create_task 0 0 empty_dict (demo_world fresh_task empty_dict))) 0) = PBool True
   \<and> checked (heap (snd (create_task 0 0 empty_dict (demo_world fresh_task empty_dict))) 0) = PBool True
   \<and> task_accepted (heap (snd (create_task 0 0 empty_dict (demo_world fresh_task empty_dict))) 0) = False"
proof -
  have ok: "fst (create_task 0 0 empty_dict (demo_world fresh_task empty_dict)) = Inr 0"
    by (simp add: create_task_def Let_def demo_defs)
  then have "create_task 0 0 empty_dict (demo_world fresh_task empty_dict)
             = (Inr 0, snd (create_task 0 0 empty_dict (demo_world fresh_task empty_dict)))"
    by (metis prod.collapse)
  from create_task_fresh_defaults [OF this] ok show ?thesis by simp
qed

text \<open>
  C1, as the spec states it: when the target-side registration raises, the unit is not
  left registered with the strategy. It fails: with plugin 0, whose hook appends, and
  item 1, whose hook raises, creation raises, and the new task (address 0) is in the
  plugin's collection, which was empty before.
\<close>

theorem create_task_partial_registration_counterexample:
  "fst (create_task 0 1 empty_dict (demo_world fresh_task empty_dict))
     = Inl (PyException ''add_task failed'')
   \<and> plugin_tasks (plugins (demo_world fresh_task empty_dict) 0) = []
   \<and> plugin_tasks (plugins (snd (create_task 0 1 empty_dict (demo_world fresh_task empty_dict))) 0)
     = [0]"
  by (simp add: create_task_def Let_def demo_defs)

text \<open>
  C1, amended: if either registration call fails, creation fails with that call's
  exception and returns no unit. If the strategy-side registration fails, the target-side
  registration is not attempted and no collection changes. If the target-side
  registration fails after the strategy-side one succeeded, the target's collection is
  unchanged and the strategy's collection keeps what the strategy-side registration
  made of it: nothing is rolled back. In both cases no debug line is written.
\<close>

theorem create_task_registration_failure:
  "(plugin_add_task (plugins w plugin_ref) (plugin_tasks (plugins w plugin_ref)) (next_ref w)
       = Inl e \<longrightarrow>
      fst (create_task plugin_ref item_ref settings_dict w) = Inl e
      \<and> plugins (snd (create_task plugin_ref item_ref settings_dict w)) = plugins w
      \<and> items (snd (create_task plugin_ref item_ref settings_dict w)) = items w
      \<and> debug_log (snd (create_task plugin_ref item_ref settings_dict w)) = debug_log w)
   \<and> (plugin_add_task (plugins w plugin_ref) (plugin_tasks (plugins w plugin_ref)) (next_ref w)
       = Inr ptasks
      \<and> item_add_task (items w item_ref) (item_tasks (items w item_ref)) (next_ref w)
       = Inl e \<longrightarrow>
      fst (create_task plugin_ref item_ref settings_dict w) = Inl e
      \<and> plugin_tasks (plugins (snd (create_task plugin_ref item_ref settings_dict w)) plugin_ref)
        = ptasks
      \<and> items (snd (create_task plugin_ref item_ref settings_dict w)) = items w
      \<and> debug_log (snd (create_task plugin_ref item_ref settings_dict w)) = debug_log w)"
  by (simp add: create_task_def Let_def)

theorem create_task_registration_failure_witness:
  "fst (create_task 1 0 empty_dict (demo_world fresh_task empty_dict))
     = Inl (PyException ''add_task failed'')
   \<and> plugin_tasks (plugins (snd (create_task 1 0 empty_dict (demo_world fresh_task empty_dict))) 1)
     = []
   \<and> item_tasks (items (snd (create_task 1 0 empty_dict (demo_world fresh_task empty_dict))) 0)
     = []
   \<and> fst (create_task 0 1 empty_dict (demo_world fresh_task empty_dict))
     = Inl (PyException ''add_task failed'')
   \<and> plugin_tasks (plugins (snd (create_task 0 1 empty_dict (demo_world fresh_task empty_dict))) 0)
     = [0]
   \<and> item_tasks (items (snd (create_task 0 1 empty_dict (demo_world fresh_task empty_dict))) 1)
     = []"
proof -
  have p1: "plugin_add_task (plugins (demo_world fresh_task empty_dict) 1)
              (plugin_tasks (plugins (demo_world fresh_task empty_dict) 1))
              (next_ref (demo_world fresh_task empty_dict))
            = Inl (PyException ''add_task failed'')"
    by (simp add: demo_defs)
  have p0: "plugin_add_task (plugins (demo_world fresh_task empty_dict) 0)
              (plugin_tasks (plugins (demo_world fresh_task empty_dict) 0))
              (next_ref (demo_world fresh_task empty_dict))
            = Inr [0]"
    by (simp add: demo_defs)
  have i1: "item_add_task (items (demo_world fresh_task empty_dict) 1)
              (item_tasks (items (demo_world fresh_task empty_dict) 1))
              (next_ref (demo_world fresh_task empty_dict))
            = Inl (PyException ''add_task failed'')"
    by (simp add: demo_defs)
  have before: "plugin_tasks (plugins (demo_world fresh_task empty_dict) 1) = []"
    "item_tasks (items (demo_world fresh_task empty_dict) 0) = []"
    "item_tasks (items (demo_world fresh_task empty_dict) 1) = []"
    by (simp_all add: demo_defs)
  from create_task_registration_failure
         [where w = "demo_world fresh_task empty_dict" and plugin_ref = 1 and item_ref = 0
            and settings_dict = empty_dict and e = "PyException ''add_task failed''"]
       create_task_registration_failure
         [where w = "demo_world fresh_task empty_dict" and plugin_ref = 0 and item_ref = 1
            and settings_dict = empty_dict and e = "PyException ''add_task failed''"
            and ptasks = "[0]"]
       p1 p0 i1 before
  show ?thesis by simp
qed

section \<open>Acceptance\<close>

text \<open>
  C4: for every unit with accepted = false, after a call to accept whose \<open>run_accept\<close>
  result has accepted = true, the unit is accepted and its visible, enabled and checked
  fields equal the corresponding values of the result where present and true where
  absent; a result holding only accepted = true gives true for all four.
\<close>

theorem accept_first_acceptance:
  assumes "\<not> task_accepted (heap w self)"
    and "accept_answer self w = Inr d"
    and "d ''accepted'' = Some (PBool True)"
  shows "fst (accept self w) = Inr ()
       \<and> task_accepted (heap (snd (accept self w)) self)
       \<and> visible (heap (snd (accept self w)) self)
           = (case d ''visible'' of Some v \<Rightarrow> v | None \<Rightarrow> PBool True)
       \<and> enabled (heap (snd (accept self w)) self)
           = (case d ''enabled'' of Some v \<Rightarrow> v | None \<Rightarrow> PBool True)
       \<and> checked (heap (snd (accept self w)) self)
           = (case d ''checked'' of Some v \<Rightarrow> v | None \<Rightarrow> PBool True)"
  using assms by (simp add: accept_defs task_props)

theorem accept_first_acceptance_witness:
  "\<not> task_accepted (heap (demo_world fresh_task answer_flags) 0)
   \<and> fst (accept 0 (demo_world fresh_task answer_flags)) = Inr ()
   \<and> task_accepted (heap (snd (accept 0 (demo_world fresh_task answer_flags))) 0)
   \<and> visible (heap (snd (accept 0 (demo_world fresh_task answer_flags))) 0) = PBool False
   \<and> enabled (heap (snd (accept 0 (demo_world fresh_task answer_flags))) 0) = PBool True
   \<and> checked (heap (snd (accept 0 (demo_world fresh_task answer_flags))) 0) = PBool False
   \<and> \<not> task_accepted (heap (demo_world fresh_task (answer_only (PBool True))) 0)
   \<and> fst (accept 0 (demo_world fresh_task (answer_only (PBool True)))) = Inr ()
   \<and> task_accepted (heap (snd (accept 0 (demo_world fresh_task (answer_only (PBool True))))) 0)
   \<and> visible (heap (snd (accept 0 (demo_world fresh_task (answer_only (PBool True))))) 0)
       = PBool True
   \<and> enabled (heap (snd (accept 0 (demo_world fresh_task (answer_only (PBool True))))) 0)
       = PBool True
   \<and> checked (heap (snd (accept 0 (demo_world fresh_task (answer_only (PBool True))))) 0)
       = PBool True"
proof -
  have a: "\<not> task_accepted (heap (demo_world fresh_task d) 0)" for d
    by (simp add: demo_defs)
  have b: "accept_answer 0 (demo_world fresh_task d) = Inr d" for d
    by (simp add: demo_defs task_props)
  have c: "answer_flags ''accepted'' = Some (PBool True)"
    "answer_only (PBool True) ''accepted'' = Some (PBool True)"
    by (simp_all add: answer_flags_def answer_only_def)
  have flags: "answer_flags ''visible'' = Some (PBool False)"
    "answer_flags ''enabled'' = Some (PBool True)"
    "answer_flags ''checked'' = Some (PBool False)"
    by (simp_all add: answer_flags_def)
  have only: "answer_only (PBool True) ''visible'' = None"
    "answer_only (PBool True) ''enabled'' = None"
    "answer_only (PBool True) ''checked'' = None"
    by (simp_all add: answer_only_def)
  from accept_first_acceptance [OF a [of answer_flags] b [of answer_flags] c(1)]
       accept_first_acceptance
         [OF a [of "answer_only (PBool True)"] b [of "answer_only (PBool True)"] c(2)]
       a flags only
  show ?thesis by simp
qed

text \<open>
  C2: for every unit whose accepted flag is already true before a call to accept, if the
  \<open>run_accept\<close> result has accepted = true, the checked field after the call equals the
  checked field before it, while visible and enabled are taken from the new result.
\<close>

theorem accept_again_keeps_checked:
  assumes "task_accepted (heap w self)"
    and "accept_answer self w = Inr d"
    and "d ''accepted'' = Some (PBool True)"
  shows "fst (accept self w) = Inr ()
       \<and> checked (heap (snd (accept self w)) self) = checked (heap w self)
       \<and> visible (heap (snd (accept self w)) self)
           = (case d ''visible'' of Some v \<Rightarrow> v | None \<Rightarrow> PBool True)
       \<and> enabled (heap (snd (accept self w)) self)
           = (case d ''enabled'' of Some v \<Rightarrow> v | None \<Rightarrow> PBool True)
       \<and> task_accepted (heap (snd (accept self w)) self)"
  using assms by (simp add: accept_defs task_props)

theorem accept_again_keeps_checked_witness:
  "task_accepted (heap (demo_world toggled_task (answer_only (PBool True))) 0)
   \<and> checked (heap (demo_world toggled_task (answer_only (PBool True))) 0) = PBool False
   \<and> visible (heap (demo_world toggled_task (answer_only (PBool True))) 0) = PBool False
   \<and> fst (accept 0 (demo_world toggled_task (answer_only (PBool True)))) = Inr ()
   \<and> checked (heap (snd (accept 0 (demo_world toggled_task (answer_only (PBool True))))) 0)
       = PBool False
   \<and> visible (heap (snd (accept 0 (demo_world toggled_task (answer_only (PBool True))))) 0)
       = PBool True
   \<and> enabled (heap (snd (accept 0 (demo_world toggled_task (answer_only (PBool True))))) 0)
       = PBool True"
proof -
  have a: "task_accepted (heap (demo_world toggled_task (answer_only (PBool True))) 0)"
    by (simp add: demo_defs)
  have b: "accept_answer 0 (demo_world toggled_task (answer_only (PBool True)))
           = Inr (answer_only (PBool True))"
    by (simp add: demo_defs task_props)
  have c: "answer_only (PBool True) ''accepted'' = Some (PBool True)"
    by (simp add: answer_only_def)
  have d: "answer_only (PBool True) ''visible'' = None"
    "answer_only (PBool True) ''enabled'' = None"
    by (simp_all add: answer_only_def)
  have e: "checked (heap (demo_world toggled_task (answer_only (PBool True))) 0) = PBool False"
    "visible (heap (demo_world toggled_task (answer_only (PBool True))) 0) = PBool False"
    by (simp_all add: demo_defs task_props)
  from accept_again_keeps_checked [OF a b c] a d e show ?thesis by simp
qed

text \<open>
  C3: for every unit in every prior state, a call to accept whose \<open>run_accept\<close> result has
  accepted = false sets accepted = false, enabled = false and checked = false, and leaves
  visible as it was.
\<close>

theorem accept_rejection_forces_off:
  assumes "accept_answer self w = Inr d"
    and "d ''accepted'' = Some (PBool False)"
  shows "fst (accept self w) = Inr ()
       \<and> task_accepted (heap (snd (accept self w)) self) = False
       \<and> enabled (heap (snd (accept self w)) self) = PBool False
       \<and> checked (heap (snd (accept self w)) self) = PBool False
       \<and> visible (heap (snd (accept self w)) self) = visible (heap w self)"
  using assms by (simp add: accept_defs task_props)

theorem accept_rejection_forces_off_witness:
  "task_accepted (heap (demo_world toggled_task (answer_only (PBool False))) 0)
   \<and> fst (accept 0 (demo_world toggled_task (answer_only (PBool False)))) = Inr ()
   \<and> \<not> task_accepted (heap (snd (accept 0 (demo_world toggled_task (answer_only (PBool False))))) 0)
   \<and> enabled (heap (snd (accept 0 (demo_world toggled_task (answer_only (PBool False))))) 0)
       = PBool False
   \<and> checked (heap (snd (accept 0 (demo_world toggled_task (answer_only (PBool False))))) 0)
       = PBool False
   \<and> visible (heap (snd (accept 0 (demo_world toggled_task (answer_only (PBool False))))) 0)
       = PBool False
   \<and> \<not> task_accepted (heap (demo_world fresh_task (answer_only (PBool False))) 0)
   \<and> fst (accept 0 (demo_world fresh_task (answer_only (PBool False)))) = Inr ()
   \<and> \<not> task_accepted (heap (snd (accept 0 (demo_world fresh_task (answer_only (PBool False))))) 0)
   \<and> enabled (heap (snd (accept 0 (demo_world fresh_task (answer_only (PBool False))))) 0)
       = PBool False
   \<and> checked (heap (snd (accept 0 (demo_world fresh_task (answer_only (PBool False))))) 0)
       = PBool False
   \<and> visible (heap (snd (accept 0 (demo_world fresh_task (answer_only (PBool False))))) 0)
       = PBool True"
proof -
  have b: "accept_answer 0 (demo_world t d) = Inr d" for t d
    by (simp add: demo_defs task_props)
  have c: "answer_only (PBool False) ''accepted'' = Some (PBool False)"
    by (simp add: answer_only_def)
  have before: "task_accepted (heap (demo_world toggled_task d) 0)"
    "\<not> task_accepted (heap (demo_world fresh_task d) 0)"
    "visible (heap (demo_world toggled_task d) 0) = PBool False"
    "visible (heap (demo_world fresh_task d) 0) = PBool True" for d
    by (simp_all add: demo_defs task_props)
  from accept_rejection_forces_off [OF b [of toggled_task "answer_only (PBool False)"] c]
       accept_rejection_forces_off [OF b [of fresh_task "answer_only (PBool False)"] c]
       before
  show ?thesis by simp
qed

text \<open>
  C6: for every call to accept where the \<open>run_accept\<close> result lacks the accepted flag, the
  call is treated exactly as a rejection (accepted = false, enabled = false, checked =
  false, visible unchanged) and returns normally.
\<close>

theorem accept_missing_flag_rejects:
  assumes "accept_answer self w = Inr d"
    and "d ''accepted'' = None"
  shows "fst (accept self w) = Inr ()
       \<and> task_accepted (heap (snd (accept self w)) self) = False
       \<and> enabled (heap (snd (accept self w)) self) = PBool False
       \<and> checked (heap (snd (accept self w)) self) = PBool False
       \<and> visible (heap (snd (accept self w)) self) = visible (heap w self)"
  using assms by (simp add: accept_defs task_props)

theorem accept_missing_flag_rejects_witness:
  "answer_no_flag ''accepted'' = None
   \<and> fst (accept 0 (demo_world toggled_task answer_no_flag)) = Inr ()
   \<and> \<not> task_accepted (heap (snd (accept 0 (demo_world toggled_task answer_no_flag))) 0)
   \<and> enabled (heap (snd (accept 0 (demo_world toggled_task answer_no_flag))) 0) = PBool False
   \<and> checked (heap (snd (accept 0 (demo_world toggled_task answer_no_flag))) 0) = PBool False
   \<and> visible (heap (snd (accept 0 (demo_world toggled_task answer_no_flag))) 0) = PBool False"
proof -
  have b: "accept_answer 0 (demo_world toggled_task answer_no_flag) = Inr answer_no_flag"
    by (simp add: demo_defs task_props)
  have c: "answer_no_flag ''accepted'' = None"
    by (simp add: answer_no_flag_def)
  have before: "visible (heap (demo_world toggled_task answer_no_flag) 0) = PBool False"
    by (simp add: demo_defs task_props)
  from accept_missing_flag_rejects [OF b c] c before show ?thesis by simp
qed

text \<open>
  C10: the branch accept takes is decided by the truthiness of the result's accepted
  value, not by equality with the boolean true: every truthy value takes the acceptance
  branch and every falsy value the rejection branch. The branch shows in the accepted
  flag and in the message recorded by the plugin's logger.
\<close>

theorem accept_branch_by_truthiness:
  assumes "accept_answer self w = Inr d"
  shows "task_accepted (heap (snd (accept self w)) self) = truthy (dict_get d ''accepted'')
       \<and> fst (last (plugin_logger (plugins (snd (accept self w)) (plugin (heap w self)))))
           = accept_message (if truthy (dict_get d ''accepted'') then ''Accepted'' else ''Rejected'')
               (plugin_name (plugins w (plugin (heap w self))))
               (item_name (items w (item (heap w self))))"
  using assms by (simp add: accept_def Let_def logger_info_def task_props)

theorem accept_branch_by_truthiness_witness:
  "task_accepted (heap (snd (accept 0 (demo_world fresh_task (answer_only (PInt 2))))) 0)
   \<and> task_accepted (heap (snd (accept 0 (demo_world fresh_task (answer_only (PStr ''yes''))))) 0)
   \<and> \<not> task_accepted (heap (snd (accept 0 (demo_world toggled_task (answer_only (PBool False))))) 0)
   \<and> \<not> task_accepted (heap (snd (accept 0 (demo_world toggled_task (answer_only PNone)))) 0)
   \<and> \<not> task_accepted (heap (snd (accept 0 (demo_world toggled_task (answer_only (PInt 0))))) 0)
   \<and> \<not> task_accepted (heap (snd (accept 0 (demo_world toggled_task (answer_only (PStr ''''))))) 0)
   \<and> fst (last (plugin_logger (plugins (snd (accept 0 (demo_world fresh_task (answer_only (PInt 2))))) 0)))
       = accept_message ''Accepted'' ''publish'' ''scene''
   \<and> fst (last (plugin_logger (plugins (snd (accept 0 (demo_world toggled_task (answer_only (PInt 0))))) 0)))
       = accept_message ''Rejected'' ''publish'' ''scene''"
proof -
  have b: "accept_answer 0 (demo_world t d) = Inr d" for t d
    by (simp add: demo_defs task_props)
  have names: "plugin (heap (demo_world t d) 0) = 0"
    "plugin_name (plugins (demo_world t d) 0) = ''publish''"
    "item_name (items (demo_world t d) (item (heap (demo_world t d) 0))) = ''scene''"
    if "t = fresh_task \<or> t = toggled_task" for t d
    using that by (auto simp: demo_defs task_props)
  have v: "dict_get (answer_only x) ''accepted'' = x" for x
    by (simp add: dict_get_def answer_only_def)
  from accept_branch_by_truthiness [OF b [of fresh_task "answer_only (PInt 2)"]]
       accept_branch_by_truthiness [OF b [of fresh_task "answer_only (PStr ''yes'')"]]
       accept_branch_by_truthiness [OF b [of toggled_task "answer_only (PBool False)"]]
       accept_branch_by_truthiness [OF b [of toggled_task "answer_only PNone"]]
       accept_branch_by_truthiness [OF b [of toggled_task "answer_only (PInt 0)"]]
       accept_branch_by_truthiness [OF b [of toggled_task "answer_only (PStr '''')"]]
       names v
  show ?thesis by simp
qed

section \<open>Comparison, validation and settings\<close>

text \<open>
  C7: for every pair of units, \<open>is_same_task_type\<close> returns true exactly when the two
  units are bound to the same plugin object, whatever their items and settings, and the
  call changes nothing.
\<close>

theorem is_same_task_type_plugin_identity:
  "fst (is_same_task_type u v w) = (plugin (heap w u) = plugin (heap w v))
   \<and> snd (is_same_task_type u v w) = w"
  by (simp add: is_same_task_type_def py_obj_eq_def task_props)

theorem is_same_task_type_plugin_identity_witness:
  "fst (is_same_task_type 0 1 three_tasks) = True
   \<and> item (heap three_tasks 0) \<noteq> item (heap three_tasks 1)
   \<and> settings (heap three_tasks 0) \<noteq> settings (heap three_tasks 1)
   \<and> fst (is_same_task_type 0 2 three_tasks) = False
   \<and> item (heap three_tasks 0) = item (heap three_tasks 2)
   \<and> settings (heap three_tasks 0) = settings (heap three_tasks 2)
   \<and> snd (is_same_task_type 0 1 three_tasks) = three_tasks"
proof -
  have p: "plugin (heap three_tasks 0) = 0" "plugin (heap three_tasks 1) = 0"
    "plugin (heap three_tasks 2) = 2"
    by (simp_all add: three_tasks_def Task_init_def task_props)
  have i: "item (heap three_tasks 0) = 0" "item (heap three_tasks 1) = 2"
    "item (heap three_tasks 2) = 0"
    by (simp_all add: three_tasks_def Task_init_def task_props)
  have s: "settings (heap three_tasks 0) = old_settings"
    "settings (heap three_tasks 1) = new_settings"
    "settings (heap three_tasks 2) = old_settings"
    by (simp_all add: three_tasks_def Task_init_def task_props)
  have "old_settings ''a'' \<noteq> new_settings ''a''"
    by (simp add: old_settings_def new_settings_def)
  then have d: "old_settings \<noteq> new_settings"
    by metis
  from is_same_task_type_plugin_identity [of 0 1 three_tasks]
       is_same_task_type_plugin_identity [of 0 2 three_tasks] p i s d
  show ?thesis by simp
qed

text \<open>
  C8: for every unit, validate returns exactly what the plugin's \<open>run_validate\<close> returns
  for the unit's current settings and item, an exception of the plugin included, and
  changes no field of the unit.
\<close>

theorem validate_pass_through:
  "fst (validate self w)
     = run_validate (plugins w (plugin (heap w self))) (settings (heap w self)) (item (heap w self))
   \<and> snd (validate self w) = w"
  by (simp add: validate_def Let_def)

theorem validate_pass_through_witness:
  "validate 0 (demo_world fresh_task empty_dict)
     = (Inr (PBool True), demo_world fresh_task empty_dict)
   \<and> validate 0 (demo_world (Task_init 1 0 empty_dict) empty_dict)
     = (Inl (PyException ''validation hook failed''),
        demo_world (Task_init 1 0 empty_dict) empty_dict)"
proof -
  have a: "run_validate (plugins (demo_world fresh_task empty_dict)
                 (plugin (heap (demo_world fresh_task empty_dict) 0)))
             (settings (heap (demo_world fresh_task empty_dict) 0))
             (item (heap (demo_world fresh_task empty_dict) 0))
           = Inr (PBool True)"
    by (simp add: demo_defs task_props)
  have b: "run_validate (plugins (demo_world (Task_init 1 0 empty_dict) empty_dict)
                 (plugin (heap (demo_world (Task_init 1 0 empty_dict) empty_dict) 0)))
             (settings (heap (demo_world (Task_init 1 0 empty_dict) empty_dict) 0))
             (item (heap (demo_world (Task_init 1 0 empty_dict) empty_dict) 0))
           = Inl (PyException ''validation hook failed'')"
    by (simp add: demo_defs task_props)
  from validate_pass_through [of 0 "demo_world fresh_task empty_dict"]
       validate_pass_through [of 0 "demo_world (Task_init 1 0 empty_dict) empty_dict"] a b
  show ?thesis by (simp add: prod_eq_iff)
qed

text \<open>
  C9: assigning a mapping to the unit's settings replaces the prior mapping: the settings
  read back are the assigned mapping, and a key present only in the old mapping is absent
  afterwards.
\<close>

theorem settings_setter_replaces:
  "fst (settings_setter self s w) = Inr ()
   \<and> settings (heap (snd (settings_setter self s w)) self) = s
   \<and> (k \<in> dom (settings (heap w self)) \<and> k \<notin> dom s
        \<longrightarrow> k \<notin> dom (settings (heap (snd (settings_setter self s w)) self)))"
  by (simp add: settings_setter_def task_props)

theorem settings_setter_replaces_witness:
  "''a'' \<in> dom (settings (heap (demo_world (Task_init 0 0 old_settings) empty_dict) 0))
   \<and> ''a'' \<notin> dom new_settings
   \<and> settings (heap (snd (settings_setter 0 new_settings
                  (demo_world (Task_init 0 0 old_settings) empty_dict))) 0)
       = new_settings
   \<and> ''a'' \<notin> dom (settings (heap (snd (settings_setter 0 new_settings
                  (demo_world (Task_init 0 0 old_settings) empty_dict))) 0))"
proof -
  have old: "''a'' \<in> dom (settings (heap (demo_world (Task_init 0 0 old_settings) empty_dict) 0))"
    by (simp add: demo_world_def Task_init_def old_settings_def task_props)
  have new: "''a'' \<notin> dom new_settings"
    by (simp add: new_settings_def)
  from settings_setter_replaces
         [of 0 new_settings "demo_world (Task_init 0 0 old_settings) empty_dict" "''a''"]
       old new
  show ?thesis by simp
qed

end
